theory Spec2Isabelle
  imports Main "HOL-Library.Word" "HOL-Library.List_Lexorder" "HOL-Library.Sublist"
begin

section \<open>Strings of the program\<close>

text \<open>
  A JavaScript string is a sequence of UTF-16 code units. Every string operation of
  \<^verbatim>\<open>index.js\<close> (\<^verbatim>\<open>split\<close>, \<^verbatim>\<open>replace\<close> with a regular expression that has no
  \<^verbatim>\<open>u\<close> flag, \<^verbatim>\<open>includes\<close>, \<^verbatim>\<open>Set\<close> membership, the default \<^verbatim>\<open>sort\<close>) works
  on code units, so a string is a list of 16-bit words. With the lexicographic order on
  lists, \<open>s < t\<close> is the comparison of JavaScript's \<^verbatim>\<open>s < t\<close> on strings, which is what
  \<^verbatim>\<open>Array.prototype.sort\<close> uses when it is called without a comparator.
\<close>

type_synonym unit16 = "16 word"
type_synonym jsstring = "unit16 list"

text \<open>Writing ASCII literals: \<open>js ''ab''\<close> is the string \<^verbatim>\<open>'ab'\<close>.\<close>

definition js :: "string \<Rightarrow> jsstring" where
  "js s = map of_char s"

definition LF :: unit16 where "LF = 0x0A"
definition TAB :: unit16 where "TAB = 0x09"
definition SPACE :: unit16 where "SPACE = 0x20"
definition BACKSLASH :: unit16 where "BACKSLASH = 0x5C"

text \<open>
  The code points of a string, as \<^verbatim>\<open>String.prototype.codePointAt\<close> reads them: a high
  surrogate followed by a low surrogate is one code point above \<open>0xFFFF\<close>, every other
  code unit is its own code point. Only the comparison by code point of the specification
  needs it; the program never decodes.
\<close>

fun codePoints :: "jsstring \<Rightarrow> nat list" where
  "codePoints [] = []"
| "codePoints [c] = [unat c]"
| "codePoints (h # l # rest) =
     (if 0xD800 \<le> h \<and> h \<le> 0xDBFF \<and> 0xDC00 \<le> l \<and> l \<le> 0xDFFF
      then (0x10000 + (unat h - 0xD800) * 0x400 + (unat l - 0xDC00)) # codePoints rest
      else unat h # codePoints (l # rest))"

section \<open>The built-ins the program calls\<close>

subsection \<open>\<^verbatim>\<open>split\<close> and \<^verbatim>\<open>join\<close>\<close>

text \<open>
  \<^verbatim>\<open>s.split(d)\<close> for a separator of one code unit: the pieces between the occurrences of
  \<open>d\<close>, empty pieces included, so that \<^verbatim>\<open>''.split('\n')\<close> is \<^verbatim>\<open>['']\<close> and
  \<^verbatim>\<open>'a\n'.split('\n')\<close> is \<^verbatim>\<open>['a', '']\<close>.
\<close>

fun split :: "unit16 \<Rightarrow> jsstring \<Rightarrow> jsstring list" where
  "split d [] = [[]]"
| "split d (c # cs) =
     (if c = d then [] # split d cs
      else (case split d cs of [] \<Rightarrow> [[c]] | w # ws \<Rightarrow> (c # w) # ws))"

text \<open>\<^verbatim>\<open>s.split('')\<close>: one string per code unit, and no string at all for the empty string.\<close>

definition splitEmpty :: "jsstring \<Rightarrow> jsstring list" where
  "splitEmpty s = map (\<lambda>c. [c]) s"

text \<open>\<^verbatim>\<open>xs.join(d)\<close>: the empty string for the empty array.\<close>

fun join :: "unit16 \<Rightarrow> jsstring list \<Rightarrow> jsstring" where
  "join d [] = []"
| "join d [w] = w"
| "join d (w # v # ws) = w @ d # join d (v # ws)"

subsection \<open>\<^verbatim>\<open>new Set\<close> and the spread of a set\<close>

text \<open>
  A \<^verbatim>\<open>Set\<close> keeps its elements in insertion order and \<^verbatim>\<open>add\<close> ignores a value it
  already holds; \<^verbatim>\<open>[...new Set(xs)]\<close> adds the elements of \<open>xs\<close> from left to right and
  reads the set back in insertion order.
\<close>

definition setAdd :: "'a list \<Rightarrow> 'a \<Rightarrow> 'a list" where
  "setAdd seen x = (if x \<in> set seen then seen else seen @ [x])"

definition spreadSet :: "'a list \<Rightarrow> 'a list" where
  "spreadSet xs = foldl setAdd [] xs"

subsection \<open>Regular expressions\<close>

text \<open>
  The fragment of regular expressions that the program writes or can build: a sequence of
  atoms, each of which consumes exactly one code unit. \<open>Dot\<close> is the unescaped \<^verbatim>\<open>.\<close>, which
  matches everything but a line terminator; \<open>Class\<close> is a character class \<^verbatim>\<open>[...]\<close>.
\<close>

datatype atom = Lit unit16 | Dot | Class "unit16 list"

type_synonym regex = "atom list"

fun atomMatches :: "atom \<Rightarrow> unit16 \<Rightarrow> bool" where
  "atomMatches (Lit c) x = (x = c)"
| "atomMatches Dot x = (x \<notin> set [0x0A, 0x0D, 0x2028, 0x2029])"
| "atomMatches (Class cs) x = (x \<in> set cs)"

text \<open>Whether the expression matches at the start of the text.\<close>

fun matchesAt :: "regex \<Rightarrow> jsstring \<Rightarrow> bool" where
  "matchesAt [] t = True"
| "matchesAt (a # as) [] = False"
| "matchesAt (a # as) (x # xs) = (atomMatches a x \<and> matchesAt as xs)"

text \<open>
  \<^verbatim>\<open>text.replace(r, f)\<close> for an expression with the \<^verbatim>\<open>g\<close> flag: the matches are found from
  left to right without overlap and each is replaced by \<open>f\<close> of the matched text (the
  replacement \<^verbatim>\<open>'\\$&'\<close> is \<open>\<lambda>m. BACKSLASH # m\<close>, a replacement without \<^verbatim>\<open>$\<close> is a
  constant function). The empty expression matches the empty string at every position.
\<close>

function replaceGlobal :: "regex \<Rightarrow> (jsstring \<Rightarrow> jsstring) \<Rightarrow> jsstring \<Rightarrow> jsstring" where
  "replaceGlobal r f [] = (if r = [] then f [] else [])"
| "replaceGlobal r f (c # cs) =
     (if r = [] then f [] @ c # replaceGlobal r f cs
      else if matchesAt r (c # cs)
        then f (take (length r) (c # cs)) @ replaceGlobal r f (drop (length r) (c # cs))
        else c # replaceGlobal r f cs)"
  by pat_completeness auto
termination
  by (relation "measure (\<lambda>(r, f, t). length t)") auto

text \<open>
  The syntax characters of a pattern,
  \<^verbatim>\<open>^ $ \ . * + ? ( ) [ ] { } |\<close>: unescaped, each of them has a meaning of its own.
\<close>

definition syntaxCharacters :: "unit16 list" where
  "syntaxCharacters =
     [0x5E, 0x24, 0x5C, 0x2E, 0x2A, 0x2B, 0x3F, 0x28, 0x29, 0x5B, 0x5D, 0x7B, 0x7D, 0x7C]"

text \<open>
  \<^verbatim>\<open>new RegExp(source, 'g')\<close>. A code unit that is no syntax character stands for itself
  (a line break too: the source of a \<^verbatim>\<open>RegExp\<close> object, unlike a literal, may contain
  one); a backslash before a syntax character makes it literal; \<^verbatim>\<open>.\<close> is \<open>Dot\<close>. The result
  is \<open>None\<close> where the constructor throws a SyntaxError (a backslash at the end) and for
  every pattern that this fragment leaves out (quantifiers, groups, classes, anchors,
  other escapes, a lone closing bracket or brace).
\<close>

fun parsePattern :: "jsstring \<Rightarrow> regex option" where
  "parsePattern [] = Some []"
| "parsePattern (c # cs) =
     (if c = BACKSLASH then
        (case cs of
           [] \<Rightarrow> None
         | d # ds \<Rightarrow>
             (if d \<in> set syntaxCharacters then map_option (Cons (Lit d)) (parsePattern ds)
              else None))
      else if c = 0x2E then map_option (Cons Dot) (parsePattern cs)
      else if c \<in> set syntaxCharacters then None
      else map_option (Cons (Lit c)) (parsePattern cs))"

text \<open>
  \<^verbatim>\<open>String.prototype.toLowerCase\<close> maps a string by the case tables of Unicode, which are
  not part of the program: every definition below that lower-cases takes the mapping as
  its first argument, and every theorem holds for any mapping. Concrete runs use the
  mapping on Basic Latin, which is what the built-in does to a string whose other code
  units have no lower-case form.
\<close>

definition toLowerCaseBasicLatin :: "jsstring \<Rightarrow> jsstring" where
  "toLowerCaseBasicLatin s = map (\<lambda>c. if 0x41 \<le> c \<and> c \<le> 0x5A then c + 0x20 else c) s"

section \<open>The program\<close>

text \<open>Reading a file that does not exist rejects the promise; nothing catches it.\<close>

datatype error = ENOENT string | SyntaxError jsstring

type_synonym files = "string \<rightharpoonup> jsstring"

definition INPUT_FILE_PATH :: string where
  "INPUT_FILE_PATH = ''input.txt''"

definition SPECIAL_CHARACTER_FILE_PATH :: string where
  "SPECIAL_CHARACTER_FILE_PATH = ''special-chars.txt''"

definition IGNORED_WORDS_FILE_PATH :: string where
  "IGNORED_WORDS_FILE_PATH = ''ignored-words.txt''"

definition KNOWN_WORDS_FILE_PATH :: string where
  "KNOWN_WORDS_FILE_PATH = ''known-words.txt''"

definition OUTPUT_FILE_PATH :: string where
  "OUTPUT_FILE_PATH = ''output.txt''"

definition readTextAsync :: "files \<Rightarrow> string \<Rightarrow> error + jsstring" where
  "readTextAsync fs path = (case fs path of None \<Rightarrow> Inl (ENOENT path) | Some text \<Rightarrow> Inr text)"

definition writeTextAsync :: "files \<Rightarrow> string \<Rightarrow> jsstring \<Rightarrow> files" where
  "writeTextAsync fs path text = fs(path \<mapsto> text)"

definition getSpecialCharacters :: "files \<Rightarrow> string \<Rightarrow> error + jsstring list" where
  "getSpecialCharacters fs path =
     (case readTextAsync fs path of Inl e \<Rightarrow> Inl e | Inr text \<Rightarrow> Inr (splitEmpty text))"

definition getListOfWords :: "files \<Rightarrow> string \<Rightarrow> error + jsstring list" where
  "getListOfWords fs path =
     (case readTextAsync fs path of Inl e \<Rightarrow> Inl e | Inr text \<Rightarrow> Inr (split LF text))"

text \<open>\<^verbatim>\<open>input.replace(/ /g, '\n')\<close>\<close>

definition flattenText :: "jsstring \<Rightarrow> jsstring" where
  "flattenText input = replaceGlobal [Lit SPACE] (\<lambda>m. [LF]) input"

text \<open>\<^verbatim>\<open>expression.replace(/[.*+?^${}()|[\]\\]/g, '\\$&')\<close>\<close>

definition escapeExpression :: "jsstring \<Rightarrow> jsstring" where
  "escapeExpression expression =
     replaceGlobal
       [Class [0x2E, 0x2A, 0x2B, 0x3F, 0x5E, 0x24, 0x7B, 0x7D, 0x28, 0x29, 0x7C, 0x5B, 0x5D, 0x5C]]
       (\<lambda>m. BACKSLASH # m) expression"

definition buildRegEx :: "jsstring \<Rightarrow> error + regex" where
  "buildRegEx expression =
     (case parsePattern (escapeExpression expression) of
        None \<Rightarrow> Inl (SyntaxError (escapeExpression expression))
      | Some r \<Rightarrow> Inr r)"

text \<open>The \<^verbatim>\<open>forEach\<close> of \<^verbatim>\<open>removeCharacters\<close>, from the first element of \<open>chars\<close> on.\<close>

fun removeCharacters :: "jsstring \<Rightarrow> jsstring list \<Rightarrow> error + jsstring" where
  "removeCharacters text [] = Inr text"
| "removeCharacters text (char # chars) =
     (case buildRegEx char of
        Inl e \<Rightarrow> Inl e
      | Inr r \<Rightarrow> removeCharacters (replaceGlobal r (\<lambda>m. []) text) chars)"

definition removeWords :: "jsstring list \<Rightarrow> jsstring list \<Rightarrow> jsstring list" where
  "removeWords words wordsToRemove = filter (\<lambda>word. \<not> (word \<in> set wordsToRemove)) words"

text \<open>
  The body of \<^verbatim>\<open>main\<close> in three parts. \<open>normalizedText\<close> is \<^verbatim>\<open>inputText\<close> after
  flattening, lower-casing and removing the special characters (lines 131 to 138).
\<close>

definition normalizedText ::
  "(jsstring \<Rightarrow> jsstring) \<Rightarrow> jsstring \<Rightarrow> jsstring list \<Rightarrow> error + jsstring" where
  "normalizedText toLowerCase inputText specialChars =
     removeCharacters (toLowerCase (flattenText inputText)) specialChars"

text \<open>\<open>workingLines\<close> is \<^verbatim>\<open>inputLines\<close> after lines 141 to 153, from the normalized text.\<close>

definition workingLines :: "jsstring \<Rightarrow> jsstring list \<Rightarrow> jsstring list \<Rightarrow> jsstring list" where
  "workingLines text ignoredWords knownWords =
     (let inputLines = filter (\<lambda>line. line \<noteq> []) (split LF text);
          inputLines = sort inputLines;
          inputLines = spreadSet inputLines;
          inputLines = removeWords inputLines ignoredWords;
          inputLines = removeWords inputLines knownWords
      in inputLines)"

text \<open>\<open>inputLines\<close> is the final word list, from what was read from the four files.\<close>

definition inputLines ::
  "(jsstring \<Rightarrow> jsstring) \<Rightarrow> jsstring \<Rightarrow> jsstring list \<Rightarrow> jsstring list \<Rightarrow> jsstring list
     \<Rightarrow> error + jsstring list" where
  "inputLines toLowerCase inputText specialChars ignoredWords knownWords =
     (case normalizedText toLowerCase inputText specialChars of
        Inl e \<Rightarrow> Inl e
      | Inr text \<Rightarrow> Inr (workingLines text ignoredWords knownWords))"

text \<open>\<open>outputText\<close> is the text handed to \<^verbatim>\<open>writeTextAsync\<close> (line 157).\<close>

definition outputText ::
  "(jsstring \<Rightarrow> jsstring) \<Rightarrow> jsstring \<Rightarrow> jsstring list \<Rightarrow> jsstring list \<Rightarrow> jsstring list
     \<Rightarrow> error + jsstring" where
  "outputText toLowerCase inputText specialChars ignoredWords knownWords =
     (case inputLines toLowerCase inputText specialChars ignoredWords knownWords of
        Inl e \<Rightarrow> Inl e
      | Inr ls \<Rightarrow> Inr (join LF ls))"

text \<open>
  \<^verbatim>\<open>main\<close> on a file system: the three lists are read first, then the input; the first
  missing file ends the run. The messages on the console are left out.
\<close>

definition main :: "(jsstring \<Rightarrow> jsstring) \<Rightarrow> files \<Rightarrow> error + files" where
  "main toLowerCase fs =
     (case getSpecialCharacters fs SPECIAL_CHARACTER_FILE_PATH of
        Inl e \<Rightarrow> Inl e
      | Inr specialChars \<Rightarrow>
     (case getListOfWords fs IGNORED_WORDS_FILE_PATH of
        Inl e \<Rightarrow> Inl e
      | Inr ignoredWords \<Rightarrow>
     (case getListOfWords fs KNOWN_WORDS_FILE_PATH of
        Inl e \<Rightarrow> Inl e
      | Inr knownWords \<Rightarrow>
     (case readTextAsync fs INPUT_FILE_PATH of
        Inl e \<Rightarrow> Inl e
      | Inr inputText \<Rightarrow>
     (case outputText toLowerCase inputText specialChars ignoredWords knownWords of
        Inl e \<Rightarrow> Inl e
      | Inr text \<Rightarrow> Inr (writeTextAsync fs OUTPUT_FILE_PATH text))))))"

text \<open>What a run leaves in \<^verbatim>\<open>output.txt\<close>, or the error that ended it.\<close>

definition written :: "(jsstring \<Rightarrow> jsstring) \<Rightarrow> files \<Rightarrow> error + jsstring option" where
  "written toLowerCase fs =
     (case main toLowerCase fs of Inl e \<Rightarrow> Inl e | Inr fs' \<Rightarrow> Inr (fs' OUTPUT_FILE_PATH))"

section \<open>The reference definition of the specification\<close>

text \<open>
  The filter as the specification words it: split on line breaks, discard empty entries,
  deduplicate, sort, remove the ignored words, remove the known words.
\<close>

definition spec_workingWords :: "jsstring \<Rightarrow> jsstring list \<Rightarrow> jsstring list \<Rightarrow> jsstring list" where
  "spec_workingWords text ignoredWords knownWords =
     filter (\<lambda>w. w \<notin> set knownWords)
       (filter (\<lambda>w. w \<notin> set ignoredWords)
          (sort (remdups (filter (\<lambda>w. w \<noteq> []) (split LF text)))))"

section \<open>Facts about the built-ins and the helpers\<close>

lemma replaceGlobal_Lit:
  "replaceGlobal [Lit c] f t = concat (map (\<lambda>x. if x = c then f [c] else [x]) t)"
  by (induction t) auto

lemma replaceGlobal_Class:
  "replaceGlobal [Class cs] f t = concat (map (\<lambda>x. if x \<in> set cs then f [x] else [x]) t)"
  by (induction t) auto

lemma flattenText_map: "flattenText t = map (\<lambda>x. if x = SPACE then LF else x) t"
  unfolding flattenText_def replaceGlobal_Lit by (induction t) auto

lemma strip_Lit: "replaceGlobal [Lit c] (\<lambda>m. []) t = filter (\<lambda>x. x \<noteq> c) t"
  unfolding replaceGlobal_Lit by (induction t) auto

lemma escapeExpression_concat:
  "escapeExpression e =
     concat (map (\<lambda>x. if x \<in> set syntaxCharacters then [BACKSLASH, x] else [x]) e)"
proof -
  have "set [0x2E, 0x2A, 0x2B, 0x3F, 0x5E, 0x24, 0x7B, 0x7D, 0x28, 0x29, 0x7C, 0x5B, 0x5D, 0x5C :: unit16]
          = set syntaxCharacters"
    unfolding syntaxCharacters_def by auto
  then show ?thesis
    unfolding escapeExpression_def replaceGlobal_Class by simp
qed

lemma parsePattern_escapeExpression: "parsePattern (escapeExpression e) = Some (map Lit e)"
proof (induction e)
  case Nil
  show ?case by (simp add: escapeExpression_concat)
next
  case (Cons x e)
  have ih: "parsePattern (concat (map (\<lambda>x. if x \<in> set syntaxCharacters then [BACKSLASH, x] else [x]) e)) = Some (map Lit e)"
    using Cons by (simp add: escapeExpression_concat)
  show ?case
  proof (cases "x \<in> set syntaxCharacters")
    case True
    then show ?thesis using ih by (simp add: escapeExpression_concat)
  next
    case False
    then have "x \<noteq> BACKSLASH" "x \<noteq> 0x2E"
      by (auto simp: syntaxCharacters_def BACKSLASH_def)
    with False show ?thesis using ih by (simp add: escapeExpression_concat)
  qed
qed

lemma buildRegEx_literal: "buildRegEx e = Inr (map Lit e)"
  by (simp add: buildRegEx_def parsePattern_escapeExpression)

lemma removeCharacters_foldl:
  "removeCharacters tx chars =
     Inr (foldl (\<lambda>t c. replaceGlobal (map Lit c) (\<lambda>m. []) t) tx chars)"
  by (induction chars arbitrary: tx) (simp_all add: buildRegEx_literal)


lemma set_strip_subset: "set (replaceGlobal r (\<lambda>m. []) t) \<subseteq> set t"
proof (induction r "\<lambda>m::jsstring. []::jsstring" t rule: replaceGlobal.induct)
  case (1 r)
  show ?case by simp
next
  case (2 r c cs)
  show ?case
  proof (cases "r = []")
    case True
    with 2 show ?thesis by auto
  next
    case False
    show ?thesis
    proof (cases "matchesAt r (c # cs)")
      case True
      have "set (drop (length r) (c # cs)) \<subseteq> set (c # cs)" by (rule set_drop_subset)
      with 2(2)[OF False True] False True show ?thesis by auto
    next
      case no: False
      with 2(3)[OF False no] False show ?thesis by auto
    qed
  qed
qed

lemma setAdd_set: "set (setAdd seen x) = insert x (set seen)"
  by (auto simp: setAdd_def)

lemma foldl_setAdd_set: "set (foldl setAdd acc xs) = set acc \<union> set xs"
  by (induction xs arbitrary: acc) (auto simp: setAdd_set)

lemma foldl_setAdd_distinct: "distinct acc \<Longrightarrow> distinct (foldl setAdd acc xs)"
  by (induction xs arbitrary: acc) (auto simp: setAdd_def)

lemma foldl_setAdd_sorted:
  "sorted (acc @ xs) \<Longrightarrow> sorted (foldl setAdd acc xs)"
proof (induction xs arbitrary: acc)
  case Nil
  then show ?case by simp
next
  case (Cons x xs)
  have "sorted (setAdd acc x @ xs)"
    using Cons.prems by (auto simp: setAdd_def sorted_append)
  then show ?case using Cons.IH by simp
qed

lemma spreadSet_set: "set (spreadSet xs) = set xs"
  by (simp add: spreadSet_def foldl_setAdd_set)

lemma spreadSet_distinct: "distinct (spreadSet xs)"
  by (simp add: spreadSet_def foldl_setAdd_distinct)

lemma spreadSet_sorted: "sorted xs \<Longrightarrow> sorted (spreadSet xs)"
  by (simp add: spreadSet_def foldl_setAdd_sorted)

lemma split_nonempty: "split d t \<noteq> []"
  by (induction t) (auto split: list.splits)

lemma split_no_separator: "w \<in> set (split d t) \<Longrightarrow> d \<notin> set w"
  by (induction t arbitrary: w) (auto split: list.splits if_splits)

lemma split_append: "split d (a @ d # b) = split d a @ split d b"
  by (induction a) (auto split: list.splits simp: split_nonempty)

lemma split_free: "d \<notin> set w \<Longrightarrow> split d w = [w]"
  by (induction w) auto

lemma split_join:
  "ws \<noteq> [] \<Longrightarrow> \<forall>w \<in> set ws. d \<notin> set w \<Longrightarrow> split d (join d ws) = ws"
proof (induction d ws rule: join.induct)
  case (1 d)
  then show ?case by simp
next
  case (2 d w)
  then show ?case by (simp add: split_free)
next
  case (3 d w v ws)
  then show ?case by (simp add: split_append split_free)
qed

lemma split_no_empty_shape:
  assumes "[] \<notin> set (split d out)"
  shows "\<not> prefix [d] out \<and> \<not> suffix [d] out \<and> \<not> sublist [d, d] out"
proof (intro conjI notI)
  assume "prefix [d] out"
  then obtain b where "out = d # b" by (auto simp: prefix_def)
  with assms show False by simp
next
  assume "suffix [d] out"
  then obtain a where "out = a @ d # []" by (auto simp: suffix_def)
  then have "split d out = split d a @ split d []" by (simp only: split_append)
  with assms show False by simp
next
  assume "sublist [d, d] out"
  then obtain a b where "out = a @ d # (d # b)" by (auto simp: sublist_def)
  then have "split d out = split d a @ split d (d # b)" by (simp only: split_append)
  with assms show False by simp
qed

lemma foldl_strip_subset:
  "set (foldl (\<lambda>t c. replaceGlobal (map Lit c) (\<lambda>m. []) t) t sc) \<subseteq> set t"
proof (induction sc arbitrary: t)
  case Nil
  show ?case by simp
next
  case (Cons c sc)
  have "set (foldl (\<lambda>t c. replaceGlobal (map Lit c) (\<lambda>m. []) t)
               (replaceGlobal (map Lit c) (\<lambda>m. []) t) sc)
          \<subseteq> set (replaceGlobal (map Lit c) (\<lambda>m. []) t)"
    by (rule Cons.IH)
  also have "\<dots> \<subseteq> set t" by (rule set_strip_subset)
  finally show ?case by simp
qed

lemma foldl_strip_removes:
  "[c] \<in> set sc \<Longrightarrow> c \<notin> set (foldl (\<lambda>t c. replaceGlobal (map Lit c) (\<lambda>m. []) t) t sc)"
proof (induction sc arbitrary: t)
  case Nil
  then show ?case by simp
next
  case (Cons x sc)
  show ?case
  proof (cases "x = [c]")
    case True
    have "c \<notin> set (replaceGlobal (map Lit x) (\<lambda>m. []) t)"
      using True by (simp add: strip_Lit)
    then show ?thesis using foldl_strip_subset by fastforce
  next
    case False
    with Cons.prems have "[c] \<in> set sc" by simp
    then show ?thesis using Cons.IH by simp
  qed
qed

lemma removeWords_ignores_empty:
  "[] \<notin> set xs \<Longrightarrow> removeWords xs (filter (\<lambda>w. w \<noteq> []) ys) = removeWords xs ys"
  unfolding removeWords_def by (rule filter_cong) auto

lemma sorted_lt_index:
  fixes ws :: "'a::linorder list"
  assumes "sorted ws" "i < length ws" "j < length ws" "ws ! i < ws ! j"
  shows "i < j"
proof (rule ccontr)
  assume "\<not> i < j"
  then have "j \<le> i" by simp
  with assms(1,2) have "ws ! j \<le> ws ! i" by (simp add: sorted_nth_mono)
  with assms(4) show False by simp
qed

text \<open>
  What the escaping is for: unescaped, the pattern \<^verbatim>\<open>.\<close> is no literal and would delete
  every code unit of a line.
\<close>

lemma unescaped_dot_removes_all:
  "parsePattern [0x2E] = Some [Dot] \<and> replaceGlobal [Dot] (\<lambda>m. []) (js ''a.b'') = []"
  by (simp add: js_def BACKSLASH_def)

section \<open>The run as a whole\<close>

text \<open>
  No expression that \<^verbatim>\<open>buildRegEx\<close> builds is rejected, so a run whose four files exist
  never fails, and its parts have closed forms.
\<close>

lemma normalizedText_total:
  "normalizedText L t sc =
     Inr (foldl (\<lambda>t c. replaceGlobal (map Lit c) (\<lambda>m. []) t) (L (flattenText t)) sc)"
  by (simp add: normalizedText_def removeCharacters_foldl)

lemma inputLines_total:
  "inputLines L t sc ig kn =
     Inr (workingLines
            (foldl (\<lambda>t c. replaceGlobal (map Lit c) (\<lambda>m. []) t) (L (flattenText t)) sc) ig kn)"
  by (simp add: inputLines_def normalizedText_total)

lemma outputText_total:
  "outputText L t sc ig kn =
     Inr (join LF (workingLines
            (foldl (\<lambda>t c. replaceGlobal (map Lit c) (\<lambda>m. []) t) (L (flattenText t)) sc) ig kn))"
  by (simp add: outputText_def inputLines_total)

lemma workingLines_set:
  "set (workingLines n ig kn) = {w \<in> set (split LF n). w \<noteq> []} - set ig - set kn"
  by (auto simp: workingLines_def removeWords_def spreadSet_set)

lemma workingLines_sorted: "sorted (workingLines n ig kn)"
  by (simp add: workingLines_def removeWords_def spreadSet_sorted sorted_wrt_filter)

lemma workingLines_distinct: "distinct (workingLines n ig kn)"
  by (simp add: workingLines_def removeWords_def spreadSet_distinct)

lemma workingLines_words:
  "w \<in> set (workingLines n ig kn) \<Longrightarrow> w \<noteq> [] \<and> LF \<notin> set w"
  by (auto simp: workingLines_set dest: split_no_separator)

lemma spreadSet_sort: "spreadSet (sort xs) = sort (remdups xs)"
  by (rule sorted_distinct_set_unique)
    (simp_all add: spreadSet_sorted spreadSet_distinct spreadSet_set)

lemma workingLines_spec: "workingLines n ig kn = spec_workingWords n ig kn"
  by (simp add: workingLines_def spec_workingWords_def removeWords_def spreadSet_sort)

lemma workingLines_covered:
  assumes "set kn' = set kn \<union> set (workingLines n ig kn)"
  shows "workingLines n ig kn' = []"
proof -
  have "set (workingLines n ig kn') = {}"
    unfolding workingLines_set assms by auto
  then show ?thesis by simp
qed

text \<open>The definitions that a run on concrete files unfolds.\<close>

lemmas run_defs =
  inputLines_def outputText_def normalizedText_def workingLines_def js_def splitEmpty_def
  toLowerCaseBasicLatin_def flattenText_def removeWords_def spreadSet_def setAdd_def
  buildRegEx_def escapeExpression_def BACKSLASH_def LF_def SPACE_def TAB_def
  syntaxCharacters_def

lemmas path_defs =
  SPECIAL_CHARACTER_FILE_PATH_def IGNORED_WORDS_FILE_PATH_def KNOWN_WORDS_FILE_PATH_def
  INPUT_FILE_PATH_def OUTPUT_FILE_PATH_def

lemmas io_defs =
  written_def main_def getSpecialCharacters_def getListOfWords_def readTextAsync_def
  writeTextAsync_def

text \<open>A run from files: punctuation stripped, an ignored word dropped, the rest sorted.\<close>

lemma written_example:
  "written toLowerCaseBasicLatin
       [SPECIAL_CHARACTER_FILE_PATH \<mapsto> js ''!'', IGNORED_WORDS_FILE_PATH \<mapsto> js ''el'',
        KNOWN_WORDS_FILE_PATH \<mapsto> [], INPUT_FILE_PATH \<mapsto> js ''Mundo el Hola!'']
   = Inr (Some (js ''hola'' @ [LF] @ js ''mundo''))"
  by (simp add: io_defs path_defs run_defs)

text \<open>A run without \<^verbatim>\<open>known-words.txt\<close> ends with the error of the read.\<close>

lemma written_missing_file:
  "written toLowerCaseBasicLatin
       [SPECIAL_CHARACTER_FILE_PATH \<mapsto> js ''!'', IGNORED_WORDS_FILE_PATH \<mapsto> js ''el'',
        INPUT_FILE_PATH \<mapsto> js ''Hola'']
   = Inl (ENOENT KNOWN_WORDS_FILE_PATH)"
  by (simp add: io_defs path_defs)

section \<open>Properties of the specification\<close>

text \<open>
  In every statement \<open>L\<close> is the lower-casing, \<open>t\<close> the text of \<^verbatim>\<open>input.txt\<close>, and
  \<open>sc\<close>, \<open>ig\<close> and \<open>kn\<close> are the arrays \<^verbatim>\<open>specialChars\<close>, \<^verbatim>\<open>ignoredWords\<close> and
  \<^verbatim>\<open>knownWords\<close>.
\<close>

subsection \<open>Sorted, without duplicates, disjoint from both lists\<close>

text \<open>
  C1. For every input text, special-character list, ignored-word list and known-word list
  the run yields a word list, which is what it joins and writes to \<^verbatim>\<open>output.txt\<close>; this
  list is sorted (in the order of the strings' code units), has no duplicate entry, and has
  no word of the ignored-word list and no word of the known-word list.
\<close>

theorem output_sorted_distinct_disjoint:
  "\<exists>ws. inputLines L t sc ig kn = Inr ws \<and> outputText L t sc ig kn = Inr (join LF ws)
      \<and> sorted ws \<and> distinct ws \<and> set ws \<inter> set ig = {} \<and> set ws \<inter> set kn = {}"
  unfolding inputLines_total outputText_total
  by (auto simp: workingLines_sorted workingLines_distinct workingLines_set)

subsection \<open>The program against the reference definition\<close>

text \<open>
  C2. The working word list of the program equals the reference definition applied to the
  normalized text: split on line breaks, discard the empty entries, deduplicate, sort,
  remove the words of the ignored-word list, then those of the known-word list, comparing
  by equality of strings. The program sorts before it deduplicates and keeps first
  occurrences; the result is the same.
\<close>

theorem inputLines_refines_spec:
  "\<exists>n. normalizedText L t sc = Inr n
      \<and> inputLines L t sc ig kn = Inr (spec_workingWords n ig kn)"
  unfolding inputLines_total normalizedText_total
  by (simp add: workingLines_spec)

subsection \<open>Running again with the output among the known words\<close>

text \<open>
  C3. Round trip: the first run yields a word list, and a second run on the same input
  text, special characters and ignored words, with any known-word list whose words are
  those of the first known-word list together with the first run's output, yields the
  empty word list.
\<close>

theorem rerun_with_output_known_is_empty:
  "\<exists>firstOutput. inputLines L t sc ig kn = Inr firstOutput
      \<and> (\<forall>kn'. set kn' = set kn \<union> set firstOutput \<longrightarrow> inputLines L t sc ig kn' = Inr [])"
  unfolding inputLines_total
  by (simp add: workingLines_covered)

text \<open>
  A run that leaves \<^verbatim>\<open>hola\<close>, and the run after \<^verbatim>\<open>hola\<close> has been added to the known
  words.
\<close>

theorem rerun_with_output_known_witness:
  "inputLines toLowerCaseBasicLatin (js ''Hola el Mundo hola'') (splitEmpty (js ''.,''))
       [js ''el''] [js ''mundo''] = Inr [js ''hola'']
   \<and> set [js ''hola'', js ''mundo''] = set [js ''mundo''] \<union> set [js ''hola'']
   \<and> inputLines toLowerCaseBasicLatin (js ''Hola el Mundo hola'') (splitEmpty (js ''.,''))
       [js ''el''] [js ''hola'', js ''mundo''] = Inr []"
proof -
  let ?run = "inputLines toLowerCaseBasicLatin (js ''Hola el Mundo hola'')
      (splitEmpty (js ''.,'')) [js ''el'']"
  have first: "?run [js ''mundo''] = Inr [js ''hola'']"
    by (simp add: run_defs)
  have merged: "set [js ''hola'', js ''mundo''] = set [js ''mundo''] \<union> set [js ''hola'']"
    by auto
  from rerun_with_output_known_is_empty
    [of toLowerCaseBasicLatin "js ''Hola el Mundo hola''" "splitEmpty (js ''.,'')"
      "[js ''el'']" "[js ''mundo'']"]
  obtain out where o: "?run [js ''mundo''] = Inr out"
    and r: "\<forall>kn'. set kn' = set [js ''mundo''] \<union> set out \<longrightarrow> ?run kn' = Inr []"
    by blast
  from o first have "out = [js ''hola'']" by simp
  with r merged have "?run [js ''hola'', js ''mundo''] = Inr []" by blast
  with first merged show ?thesis by blast
qed

subsection \<open>Flattening\<close>

text \<open>
  C4, as the code has it. \<^verbatim>\<open>flattenText\<close> replaces every space (U+0020) by a line break
  and leaves every other code unit, a tab or any other white space included, as it is:
  after the flattening no space remains.
\<close>

theorem flattenText_replaces_spaces:
  "flattenText t = map (\<lambda>c. if c = SPACE then LF else c) t \<and> SPACE \<notin> set (flattenText t)"
  by (auto simp: flattenText_map SPACE_def LF_def)

text \<open>
  A tab between two words stays: \<^verbatim>\<open>'a\tb'\<close> is flattened to itself, and the run keeps it
  as the one word \<^verbatim>\<open>'a\tb'\<close>.
\<close>

theorem flattenText_keeps_tab:
  "flattenText [0x61, TAB, 0x62] = [0x61, TAB, 0x62]
   \<and> inputLines toLowerCaseBasicLatin [0x61, TAB, 0x62] [] [[]] [[]] = Inr [[0x61, TAB, 0x62]]"
  by (simp add: run_defs)

subsection \<open>Removing the special characters\<close>


subsection \<open>The order of the output\<close>

text \<open>
  C6, as the code has it. The output is in the order of UTF-16 code units, the order of
  \<^verbatim>\<open>sort\<close> without a comparator: of two words of the output the one that is smaller in
  the lexicographic comparison of code units comes first, and a word at an earlier
  position is strictly smaller than a word at a later one.
\<close>

theorem output_in_code_unit_order:
  "\<exists>ws. inputLines L t sc ig kn = Inr ws
      \<and> (\<forall>i j. i < length ws \<and> j < length ws \<and> ws ! i < ws ! j \<longrightarrow> i < j)
      \<and> (\<forall>i j. i < j \<and> j < length ws \<longrightarrow> ws ! i < ws ! j)"
proof -
  let ?ws = "workingLines
      (foldl (\<lambda>t c. replaceGlobal (map Lit c) (\<lambda>m. []) t) (L (flattenText t)) sc) ig kn"
  have s: "sorted ?ws" by (rule workingLines_sorted)
  have d: "distinct ?ws" by (rule workingLines_distinct)
  have a: "\<forall>i j. i < length ?ws \<and> j < length ?ws \<and> ?ws ! i < ?ws ! j \<longrightarrow> i < j"
    using s by (blast intro: sorted_lt_index)
  have b: "\<forall>i j. i < j \<and> j < length ?ws \<longrightarrow> ?ws ! i < ?ws ! j"
  proof (intro allI impI)
    fix i j assume ij: "i < j \<and> j < length ?ws"
    then have "?ws ! i \<le> ?ws ! j" using s by (simp add: sorted_nth_mono)
    moreover have "?ws ! i \<noteq> ?ws ! j" using d ij by (simp add: nth_eq_iff_index_eq)
    ultimately show "?ws ! i < ?ws ! j" by simp
  qed
  show ?thesis unfolding inputLines_total using a b by blast
qed

text \<open>Two words in a run, at the positions 0 and 1.\<close>

theorem output_in_code_unit_order_witness:
  "inputLines toLowerCaseBasicLatin (js ''sol luna'') [] [[]] [[]] = Inr [js ''luna'', js ''sol'']
   \<and> (0::nat) < 1 \<and> 1 < length [js ''luna'', js ''sol'']
   \<and> js ''luna'' < js ''sol''"
proof -
  let ?run = "inputLines toLowerCaseBasicLatin (js ''sol luna'') [] [[]] [[]]"
  have e: "?run = Inr [js ''luna'', js ''sol'']" by (simp add: run_defs)
  from output_in_code_unit_order [of toLowerCaseBasicLatin "js ''sol luna''" "[]" "[[]]" "[[]]"]
  obtain ws where o: "?run = Inr ws"
    and a: "\<forall>i j. i < length ws \<and> j < length ws \<and> ws ! i < ws ! j \<longrightarrow> i < j"
    and b: "\<forall>i j. i < j \<and> j < length ws \<longrightarrow> ws ! i < ws ! j"
    by blast
  from o e have w: "ws = [js ''luna'', js ''sol'']" by simp
  have l: "(0::nat) < 1 \<and> 1 < length ws" using w by simp
  with b have lt: "ws ! 0 < ws ! 1" by blast
  with a l have "(0::nat) < 1" by blast
  with lt w e show ?thesis by simp
qed

text \<open>
  The order of code units is not the order of code points. U+FF5E is below U+1F600, but
  U+1F600 is the surrogate pair \<open>0xD83D 0xDE00\<close>, whose first code unit is below \<open>0xFF5E\<close>:
  the output has U+1F600 first.
\<close>

theorem output_not_in_code_point_order:
  "inputLines toLowerCaseBasicLatin [0xFF5E, 0x20, 0xD83D, 0xDE00] [] [[]] [[]]
     = Inr [[0xD83D, 0xDE00], [0xFF5E]]
   \<and> codePoints [0xFF5E] < codePoints [0xD83D, 0xDE00]"
  by (simp add: run_defs)

subsection \<open>Determinism\<close>

text \<open>
  C7. What a run writes to \<^verbatim>\<open>output.txt\<close>, or the error that ends it, is a function of
  the contents of the four input files: two file systems that agree on
  \<^verbatim>\<open>special-chars.txt\<close>, \<^verbatim>\<open>ignored-words.txt\<close>, \<^verbatim>\<open>known-words.txt\<close> and \<^verbatim>\<open>input.txt\<close>
  give the same result, whatever else they hold.
\<close>

theorem written_deterministic:
  assumes "\<forall>p \<in> set [SPECIAL_CHARACTER_FILE_PATH, IGNORED_WORDS_FILE_PATH,
              KNOWN_WORDS_FILE_PATH, INPUT_FILE_PATH]. fs1 p = fs2 p"
  shows "written L fs1 = written L fs2"
  using assms
  by (simp add: io_defs split: sum.splits option.splits)

text \<open>
  Two file systems with the same four files that differ elsewhere: the second holds an
  older output.
\<close>

theorem written_deterministic_witness:
  "[SPECIAL_CHARACTER_FILE_PATH \<mapsto> js ''!'', IGNORED_WORDS_FILE_PATH \<mapsto> js ''el'',
    KNOWN_WORDS_FILE_PATH \<mapsto> [], INPUT_FILE_PATH \<mapsto> js ''Mundo el Hola!'']
     INPUT_FILE_PATH
   = [SPECIAL_CHARACTER_FILE_PATH \<mapsto> js ''!'', IGNORED_WORDS_FILE_PATH \<mapsto> js ''el'',
      KNOWN_WORDS_FILE_PATH \<mapsto> [], INPUT_FILE_PATH \<mapsto> js ''Mundo el Hola!'',
      OUTPUT_FILE_PATH \<mapsto> js ''old''] INPUT_FILE_PATH
   \<and> [SPECIAL_CHARACTER_FILE_PATH \<mapsto> js ''!'', IGNORED_WORDS_FILE_PATH \<mapsto> js ''el'',
    KNOWN_WORDS_FILE_PATH \<mapsto> [], INPUT_FILE_PATH \<mapsto> js ''Mundo el Hola!'']
     OUTPUT_FILE_PATH
   \<noteq> [SPECIAL_CHARACTER_FILE_PATH \<mapsto> js ''!'', IGNORED_WORDS_FILE_PATH \<mapsto> js ''el'',
      KNOWN_WORDS_FILE_PATH \<mapsto> [], INPUT_FILE_PATH \<mapsto> js ''Mundo el Hola!'',
      OUTPUT_FILE_PATH \<mapsto> js ''old''] OUTPUT_FILE_PATH
   \<and> written toLowerCaseBasicLatin
       [SPECIAL_CHARACTER_FILE_PATH \<mapsto> js ''!'', IGNORED_WORDS_FILE_PATH \<mapsto> js ''el'',
        KNOWN_WORDS_FILE_PATH \<mapsto> [], INPUT_FILE_PATH \<mapsto> js ''Mundo el Hola!'']
     = written toLowerCaseBasicLatin
       [SPECIAL_CHARACTER_FILE_PATH \<mapsto> js ''!'', IGNORED_WORDS_FILE_PATH \<mapsto> js ''el'',
        KNOWN_WORDS_FILE_PATH \<mapsto> [], INPUT_FILE_PATH \<mapsto> js ''Mundo el Hola!'',
        OUTPUT_FILE_PATH \<mapsto> js ''old'']"
proof -
  let ?fs1 = "[SPECIAL_CHARACTER_FILE_PATH \<mapsto> js ''!'', IGNORED_WORDS_FILE_PATH \<mapsto> js ''el'',
        KNOWN_WORDS_FILE_PATH \<mapsto> [], INPUT_FILE_PATH \<mapsto> js ''Mundo el Hola!'']"
  let ?fs2 = "[SPECIAL_CHARACTER_FILE_PATH \<mapsto> js ''!'', IGNORED_WORDS_FILE_PATH \<mapsto> js ''el'',
        KNOWN_WORDS_FILE_PATH \<mapsto> [], INPUT_FILE_PATH \<mapsto> js ''Mundo el Hola!'',
        OUTPUT_FILE_PATH \<mapsto> js ''old'']"
  have h: "\<forall>p \<in> set [SPECIAL_CHARACTER_FILE_PATH, IGNORED_WORDS_FILE_PATH,
              KNOWN_WORDS_FILE_PATH, INPUT_FILE_PATH]. ?fs1 p = ?fs2 p"
    by (simp add: path_defs)
  then have same: "?fs1 INPUT_FILE_PATH = ?fs2 INPUT_FILE_PATH" by simp
  have differ: "?fs1 OUTPUT_FILE_PATH \<noteq> ?fs2 OUTPUT_FILE_PATH"
    by (simp add: path_defs)
  from written_deterministic [OF h] same differ show ?thesis by blast
qed

subsection \<open>The shape of the text that is written\<close>

text \<open>
  C8. Every word of the output list is non-empty, so the text written to \<^verbatim>\<open>output.txt\<close>
  has no empty line: it does not begin with a line break, does not end with one and has no
  two line breaks in a row; split on line breaks it gives the words back. When the word
  list is empty the text is the empty string. (A word of white space other than space and
  line break, such as a lone tab or carriage return, is a word like any other and is not
  empty.)
\<close>

theorem output_has_no_empty_line:
  "\<exists>ws out. inputLines L t sc ig kn = Inr ws \<and> outputText L t sc ig kn = Inr out
      \<and> [] \<notin> set ws
      \<and> \<not> prefix [LF] out \<and> \<not> suffix [LF] out \<and> \<not> sublist [LF, LF] out
      \<and> (ws = [] \<longrightarrow> out = [])
      \<and> (ws \<noteq> [] \<longrightarrow> split LF out = ws)"
proof -
  let ?ws = "workingLines
      (foldl (\<lambda>t c. replaceGlobal (map Lit c) (\<lambda>m. []) t) (L (flattenText t)) sc) ig kn"
  have ne: "[] \<notin> set ?ws"
    using workingLines_words by blast
  have lf: "\<forall>w \<in> set ?ws. LF \<notin> set w"
    using workingLines_words by blast
  have rt: "?ws \<noteq> [] \<longrightarrow> split LF (join LF ?ws) = ?ws"
    using lf by (simp add: split_join)
  have em: "?ws = [] \<longrightarrow> join LF ?ws = []"
    by simp
  have shape: "\<not> prefix [LF] (join LF ?ws) \<and> \<not> suffix [LF] (join LF ?ws)
      \<and> \<not> sublist [LF, LF] (join LF ?ws)"
  proof (cases "?ws = []")
    case True
    then show ?thesis by simp
  next
    case False
    with rt ne have "[] \<notin> set (split LF (join LF ?ws))" by simp
    then show ?thesis by (rule split_no_empty_shape)
  qed
  show ?thesis
    unfolding inputLines_total outputText_total
    using ne rt em shape by blast
qed

text \<open>
  A run with three words, between spaces in a row and at both ends of the input, and a
  run whose only word is known.
\<close>

theorem output_has_no_empty_line_witness:
  "inputLines toLowerCaseBasicLatin (js ''  Hola  el Mundo '') [] [[]] [js ''zzz'', []]
     = Inr [js ''el'', js ''hola'', js ''mundo'']
   \<and> [js ''el'', js ''hola'', js ''mundo''] \<noteq> []
   \<and> split LF (js ''el'' @ [LF] @ js ''hola'' @ [LF] @ js ''mundo'')
       = [js ''el'', js ''hola'', js ''mundo'']
   \<and> inputLines toLowerCaseBasicLatin (js ''Hola'') [] [[]] [js ''hola'', []] = Inr []
   \<and> outputText toLowerCaseBasicLatin (js ''Hola'') [] [[]] [js ''hola'', []] = Inr []"
proof -
  let ?A = "inputLines toLowerCaseBasicLatin (js ''  Hola  el Mundo '') [] [[]] [js ''zzz'', []]"
  let ?Ao = "outputText toLowerCaseBasicLatin (js ''  Hola  el Mundo '') [] [[]] [js ''zzz'', []]"
  let ?B = "inputLines toLowerCaseBasicLatin (js ''Hola'') [] [[]] [js ''hola'', []]"
  let ?Bo = "outputText toLowerCaseBasicLatin (js ''Hola'') [] [[]] [js ''hola'', []]"
  have eA: "?A = Inr [js ''el'', js ''hola'', js ''mundo'']" by (simp add: run_defs)
  have eAo: "?Ao = Inr (js ''el'' @ [LF] @ js ''hola'' @ [LF] @ js ''mundo'')"
    by (simp add: run_defs)
  have eB: "?B = Inr []" by (simp add: run_defs)
  from output_has_no_empty_line
    [of toLowerCaseBasicLatin "js ''  Hola  el Mundo ''" "[]" "[[]]" "[js ''zzz'', []]"]
  obtain ws out where "?A = Inr ws" "?Ao = Inr out" "ws \<noteq> [] \<longrightarrow> split LF out = ws"
    by blast
  with eA eAo have A: "[js ''el'', js ''hola'', js ''mundo''] \<noteq> []
      \<and> split LF (js ''el'' @ [LF] @ js ''hola'' @ [LF] @ js ''mundo'')
          = [js ''el'', js ''hola'', js ''mundo'']"
    by auto
  from output_has_no_empty_line
    [of toLowerCaseBasicLatin "js ''Hola''" "[]" "[[]]" "[js ''hola'', []]"]
  obtain ws' out' where "?B = Inr ws'" "?Bo = Inr out'" "ws' = [] \<longrightarrow> out' = []"
    by blast
  with eB have B: "?Bo = Inr []" by auto
  from eA A eB B show ?thesis by blast
qed

subsection \<open>A line break among the special characters\<close>

text \<open>
  C9, as the code has it. If the special characters contain the line break, it is removed
  like any other character: the removal runs after the flattening, so the normalized text
  has no line break left and is at most one word. The output is that one word, the whole
  remaining text, unless the text is empty or is a word of the ignored-word list or of the
  known-word list; then the output is empty.
\<close>

theorem newline_special_collapses_text:
  assumes "[LF] \<in> set sc"
  shows "\<exists>n. normalizedText L t sc = Inr n \<and> LF \<notin> set n
      \<and> inputLines L t sc ig kn
          = Inr (if n = [] \<or> n \<in> set ig \<or> n \<in> set kn then [] else [n])"
proof -
  let ?n = "foldl (\<lambda>t c. replaceGlobal (map Lit c) (\<lambda>m. []) t) (L (flattenText t)) sc"
  have lf: "LF \<notin> set ?n" using assms by (rule foldl_strip_removes)
  then have "split LF ?n = [?n]" by (rule split_free)
  then have "workingLines ?n ig kn
      = (if ?n = [] \<or> ?n \<in> set ig \<or> ?n \<in> set kn then [] else [?n])"
    by (simp add: workingLines_def removeWords_def spreadSet_def setAdd_def)
  with lf show ?thesis
    unfolding inputLines_total normalizedText_total by simp
qed

text \<open>Special characters \<^verbatim>\<open>',\n'\<close>: three words become the one word \<^verbatim>\<open>holaelmundo\<close>.\<close>

theorem newline_special_collapses_text_witness:
  "[LF] \<in> set (splitEmpty [0x2C, LF])
   \<and> normalizedText toLowerCaseBasicLatin (js ''Hola, el Mundo'') (splitEmpty [0x2C, LF])
       = Inr (js ''holaelmundo'')
   \<and> inputLines toLowerCaseBasicLatin (js ''Hola, el Mundo'') (splitEmpty [0x2C, LF])
       [js ''el''] [js ''hola''] = Inr [js ''holaelmundo'']"
proof -
  have h: "[LF] \<in> set (splitEmpty [0x2C, LF])" by (simp add: splitEmpty_def)
  have e: "normalizedText toLowerCaseBasicLatin (js ''Hola, el Mundo'') (splitEmpty [0x2C, LF])
       = Inr (js ''holaelmundo'')"
    by (simp add: run_defs)
  from newline_special_collapses_text
    [OF h, of toLowerCaseBasicLatin "js ''Hola, el Mundo''" "[js ''el'']" "[js ''hola'']"] e
  have "inputLines toLowerCaseBasicLatin (js ''Hola, el Mundo'') (splitEmpty [0x2C, LF])
       [js ''el''] [js ''hola''] = Inr [js ''holaelmundo'']"
    by (simp add: js_def)
  with h e show ?thesis by blast
qed

text \<open>
  The one word need not reach the output. With the special characters \<^verbatim>\<open>'\n'\<close>, the
  input \<^verbatim>\<open>'a b'\<close> and the known word \<^verbatim>\<open>ab\<close> the remaining text is \<^verbatim>\<open>ab\<close> and the
  output has no word.
\<close>

theorem newline_special_output_empty:
  "normalizedText toLowerCaseBasicLatin (js ''a b'') (splitEmpty [LF]) = Inr (js ''ab'')
   \<and> inputLines toLowerCaseBasicLatin (js ''a b'') (splitEmpty [LF]) [[]] [js ''ab''] = Inr []"
  by (simp add: run_defs)

subsection \<open>Empty entries in the exclusion lists\<close>

text \<open>
  C10. A word file is split on line breaks and keeps its empty pieces: a line break at the
  end of the file gives a last entry that is empty, a blank line an empty entry in the
  middle. Such entries remove no word: the output with the ignored-word and known-word
  lists is the output with the same lists without their empty entries, and adding an empty
  entry to each changes nothing.
\<close>

theorem empty_exclusions_harmless:
  "split LF (s @ [LF]) = split LF s @ [[]]
   \<and> split LF (a @ LF # LF # b) = split LF a @ [] # split LF b
   \<and> inputLines L t sc (filter (\<lambda>w. w \<noteq> []) ig) (filter (\<lambda>w. w \<noteq> []) kn)
       = inputLines L t sc ig kn
   \<and> inputLines L t sc ([] # ig) ([] # kn) = inputLines L t sc ig kn"
proof (intro conjI)
  show "split LF (s @ [LF]) = split LF s @ [[]]"
    by (simp only: split_append) simp
  show "split LF (a @ LF # LF # b) = split LF a @ [] # split LF b"
    by (simp only: split_append) simp
  have base: "[] \<notin> set (spreadSet (sort (filter (\<lambda>line. line \<noteq> []) (split LF n))))" for n
    by (simp add: spreadSet_set)
  have keep: "[] \<notin> set (removeWords xs ys)" if "[] \<notin> set xs" for xs ys :: "jsstring list"
    using that by (simp add: removeWords_def)
  have w: "workingLines n (filter (\<lambda>w. w \<noteq> []) xs) (filter (\<lambda>w. w \<noteq> []) ys)
      = workingLines n xs ys" for n xs ys
    unfolding workingLines_def Let_def
    by (simp add: removeWords_ignores_empty base keep)
  show "inputLines L t sc (filter (\<lambda>w. w \<noteq> []) ig) (filter (\<lambda>w. w \<noteq> []) kn)
      = inputLines L t sc ig kn"
    unfolding inputLines_total by (simp add: w)
  have w2: "workingLines n ([] # ig) ([] # kn) = workingLines n ig kn" for n
    using w [of n "[] # ig" "[] # kn"] w [of n ig kn] by simp
  show "inputLines L t sc ([] # ig) ([] # kn) = inputLines L t sc ig kn"
    unfolding inputLines_total by (simp add: w2)
qed

end
